theory Spec2Isabelle
  imports Main "HOL-Library.Sublist"
begin

section \<open>Values that travel between server and client\<close>

text \<open>
  Frames on the real-time channel and request bodies are JSON. A decoded JSON value is one
  of the constructors below; a JavaScript object is the list of its own properties in
  insertion order. The result of reading a property that is not there is \<open>undefined\<close>,
  written \<open>None\<close>. JSON numbers are kept as integers: the client never computes with
  the numbers it receives on the channel.
\<close>

datatype json =
    JNull
  | JBool bool
  | JNum int
  | JStr string
  | JArr "json list"
  | JObj "(string \<times> json) list"

datatype js_error = SyntaxError | TypeError | ListenerError | NetworkError

text \<open>
  \<open>v.k\<close> for a decoded value \<open>v\<close> that may be \<open>undefined\<close>: reading a property of
  \<open>undefined\<close> or \<open>null\<close> throws a TypeError, an object yields its property, and
  every other value yields \<open>undefined\<close> for the property names this program reads
  (\<open>type\<close>, \<open>event\<close>, \<open>data\<close>, \<open>id\<close>).
\<close>

fun get_prop :: "json option \<Rightarrow> string \<Rightarrow> js_error + json option" where
  "get_prop None k = Inl TypeError"
| "get_prop (Some JNull) k = Inl TypeError"
| "get_prop (Some (JObj kvs)) k = Inr (map_of kvs k)"
| "get_prop (Some v) k = Inr None"

section \<open>Data model\<close>

text \<open>
  The \<open>Snag\<close> interface of the mobile detail screen; the web client reads the same
  fields from the same API. Optional fields (\<open>?:\<close>) are options, \<open>None\<close> standing for
  \<open>undefined\<close> and \<open>null\<close> alike. The field \<open>id\<close> is named \<open>snag_id\<close> here.
\<close>

record snag =
  snag_id :: string
  query_no :: nat
  project_name :: "string option"
  description :: "string option"
  location :: "string option"
  status :: string
  assigned_contractor_id :: "string option"
  work_started_date :: "string option"
  work_completed_date :: "string option"
  contractor_completion_date :: "string option"
  contractor_completed :: "bool option"
  authority_approved :: "bool option"
  authority_feedback :: "string option"
  authority_comment :: "string option"

record user =
  user_id :: string
  role :: string

text \<open>JavaScript truthiness of an optional string and of an optional boolean.\<close>

definition truthy :: "string option \<Rightarrow> bool" where
  "truthy v = (case v of None \<Rightarrow> False | Some s \<Rightarrow> s \<noteq> [])"

definition truthy_bool :: "bool option \<Rightarrow> bool" where
  "truthy_bool v = (v = Some True)"

section \<open>View reconciler of the web snag list (\<open>SnagsPage\<close>)\<close>

text \<open>
  The page holds the local snapshot \<open>snags\<close> and the project names. \<open>requests\<close> logs
  the endpoints the page has asked the API for, in order. The filters are the ones the
  subscription closure captured.
\<close>

record filters =
  f_status :: string
  f_priority :: string
  f_project :: string
  f_search :: string

record page =
  snags :: "snag list"
  projects :: "string list"
  requests :: "string list"

text \<open>
  What the API answers to the two fetches a reconciliation can trigger; \<open>Inl\<close> is a
  rejected request. For \<open>/api/projects/names\<close> the answer's \<open>projects\<close> member may
  be missing.
\<close>

record api_env =
  snags_response :: "js_error + snag list"
  projects_response :: "js_error + string list option"

definition snags_url :: "filters \<Rightarrow> string" where
  "snags_url f =
     ''/api/snags?''
     @ (if f_status f \<noteq> [] then ''status='' @ f_status f @ ''&'' else [])
     @ (if f_priority f \<noteq> [] then ''priority='' @ f_priority f @ ''&'' else [])
     @ (if f_project f \<noteq> [] then ''project_name='' @ f_project f @ ''&'' else [])"

definition loadSnags :: "filters \<Rightarrow> api_env \<Rightarrow> page \<Rightarrow> page" where
  "loadSnags f env pg =
     (let pg' = pg\<lparr>requests := requests pg @ [snags_url f]\<rparr>
      in case snags_response env of
           Inr data \<Rightarrow> pg'\<lparr>snags := data\<rparr>
         | Inl e \<Rightarrow> pg')"

definition loadProjects :: "api_env \<Rightarrow> page \<Rightarrow> page" where
  "loadProjects env pg =
     (let pg' = pg\<lparr>requests := requests pg @ [''/api/projects/names'']\<rparr>
      in case projects_response env of
           Inr (Some ps) \<Rightarrow> pg'\<lparr>projects := ps\<rparr>
         | Inr None \<Rightarrow> pg'\<lparr>projects := []\<rparr>
         | Inl e \<Rightarrow> pg')"

text \<open>
  \<open>prev.filter(s => s.id !== message.data.id)\<close>. The callback reads
  \<open>message.data.id\<close> once per element, so a message without \<open>data\<close> throws only when
  the snapshot is not empty. A snag's id is a string, and \<open>!==\<close> against anything that
  is not that same string is true.
\<close>

definition remove_deleted :: "json \<Rightarrow> snag list \<Rightarrow> js_error + snag list" where
  "remove_deleted message prev =
     (if prev = [] then Inr []
      else case get_prop (Some message) ''data'' of
             Inl e \<Rightarrow> Inl e
           | Inr d \<Rightarrow>
               (case get_prop d ''id'' of
                  Inl e \<Rightarrow> Inl e
                | Inr i \<Rightarrow> Inr (filter (\<lambda>s. Some (JStr (snag_id s)) \<noteq> i) prev)))"

text \<open>
  How \<open>SnagsPage\<close> handles a message: the listener it subscribes, together with
  what the listener sets going. A fetch it starts is shown with its outcome, as if the
  answer arrived before the next event, and the state updater it queues for a
  \<open>deleted\<close> event is shown applied. \<open>Inl\<close> is an exception raised on the way: by
  the listener itself, or (for a \<open>deleted\<close> frame without \<open>data\<close>) by the queued
  updater when React runs it at the next render, after the listener has returned.
\<close>

definition snags_listener :: "filters \<Rightarrow> api_env \<Rightarrow> json \<Rightarrow> page \<Rightarrow> js_error + page" where
  "snags_listener f env message pg =
     (case get_prop (Some message) ''type'' of
        Inl e \<Rightarrow> Inl e
      | Inr t \<Rightarrow>
          if t = Some (JStr ''snag_update'') then
            (case get_prop (Some message) ''event'' of
               Inl e \<Rightarrow> Inl e
             | Inr ev \<Rightarrow>
                 if ev = Some (JStr ''created'') then Inr (loadProjects env (loadSnags f env pg))
                 else if ev = Some (JStr ''updated'') then Inr (loadSnags f env pg)
                 else if ev = Some (JStr ''deleted'') then
                   (case remove_deleted message (snags pg) of
                      Inl e \<Rightarrow> Inl e
                    | Inr rest \<Rightarrow> Inr (pg\<lparr>snags := rest\<rparr>))
                 else Inr pg)
          else Inr pg)"

text \<open>The frame \<open>{type: "snag_update", event: ev, data: {id: x}}\<close>.\<close>

definition snag_update :: "string \<Rightarrow> string \<Rightarrow> json" where
  "snag_update ev x =
     JObj [(''type'', JStr ''snag_update''), (''event'', JStr ev),
           (''data'', JObj [(''id'', JStr x)])]"

text \<open>The snapshot after the page has handled a message (unchanged if handling threw).\<close>

definition reconcile :: "filters \<Rightarrow> api_env \<Rightarrow> json \<Rightarrow> page \<Rightarrow> page" where
  "reconcile f env message pg =
     (case snags_listener f env message pg of Inl e \<Rightarrow> pg | Inr pg' \<Rightarrow> pg')"

text \<open>The scenario of the specification: a snapshot that holds the snag \<open>S1\<close>.\<close>

definition snag_S1 :: snag where
  "snag_S1 =
     \<lparr>snag_id = ''S1'', query_no = 1, project_name = Some ''Tower A'',
      description = Some ''Cracked tile'', location = Some ''Lobby'', status = ''open'',
      assigned_contractor_id = Some ''c1'', work_started_date = None,
      work_completed_date = None, contractor_completion_date = None,
      contractor_completed = None, authority_approved = None,
      authority_feedback = None, authority_comment = None\<rparr>"

definition snag_S2 :: snag where
  "snag_S2 = snag_S1\<lparr>snag_id := ''S2'', query_no := 2, location := Some ''Roof''\<rparr>"

definition no_filters :: filters where
  "no_filters = \<lparr>f_status = [], f_priority = [], f_project = [], f_search = []\<rparr>"

definition page_S1 :: page where
  "page_S1 = \<lparr>snags = [snag_S1], projects = [], requests = []\<rparr>"

definition server_S1_S2 :: api_env where
  "server_S1_S2 = \<lparr>snags_response = Inr [snag_S1, snag_S2], projects_response = Inr None\<rparr>"

section \<open>Transport channel and event bus (\<open>WebSocketProvider\<close>)\<close>

text \<open>
  The provider keeps three refs and two pieces of React state. Every \<open>WebSocket\<close> it
  has constructed is an entry of \<open>sockets\<close>, holding the socket's \<open>readyState\<close>;
  \<open>wsRef\<close> is the index of \<open>wsRef.current\<close>. \<open>timers\<close> are the timeouts that are
  armed, by id, and \<open>next_timer\<close> is the id the next \<open>setTimeout\<close> returns (ids are
  positive, hence truthy). \<open>listenersRef\<close> is the \<open>Set\<close> of listeners in insertion
  order. \<open>outbox\<close> logs the frames given to \<open>send\<close> and \<open>calls\<close> the listener
  invocations, in order.
\<close>

datatype ready_state = CONNECTING | OPEN | CLOSING | CLOSED

type_synonym listener = nat

record provider =
  isConnected :: bool
  lastUpdate :: "json option"
  wsRef :: "nat option"
  sockets :: "ready_state list"
  reconnectTimeoutRef :: "nat option"
  timers :: "nat list"
  next_timer :: nat
  listenersRef :: "listener list"
  outbox :: "(nat \<times> json) list"
  calls :: "(listener \<times> json) list"

text \<open>
  What the provider reads from its surroundings: the module constant \<open>WS_URL\<close>, the
  token in local storage, \<open>JSON.parse\<close>, and for each listener whether it throws on a
  given message.
\<close>

record config =
  WS_URL :: "string option"
  authToken :: "string option"
  parse :: "string \<Rightarrow> js_error + json"
  throws :: "listener \<Rightarrow> json \<Rightarrow> bool"

definition init_provider :: provider where
  "init_provider =
     \<lparr>isConnected = False, lastUpdate = None, wsRef = None, sockets = [],
      reconnectTimeoutRef = None, timers = [], next_timer = 1, listenersRef = [],
      outbox = [], calls = []\<rparr>"

definition readyState :: "provider \<Rightarrow> nat \<Rightarrow> ready_state option" where
  "readyState st i = (if i < length (sockets st) then Some (sockets st ! i) else None)"

text \<open>
  \<open>connect\<close>: nothing without a URL, nothing when \<open>wsRef.current\<close> is open;
  otherwise a new socket replaces \<open>wsRef.current\<close> and gets the four handlers. The
  constructor is taken to succeed: it throws only on a malformed URL, and then the
  \<open>catch\<close> leaves the refs as they were.
\<close>

definition connect :: "config \<Rightarrow> provider \<Rightarrow> provider" where
  "connect cfg st =
     (if \<not> truthy (WS_URL cfg) then st
      else if (case wsRef st of None \<Rightarrow> False | Some i \<Rightarrow> readyState st i = Some OPEN) then st
      else st\<lparr>wsRef := Some (length (sockets st)), sockets := sockets st @ [CONNECTING]\<rparr>)"

text \<open>
  \<open>onopen\<close> sends the auth frame on \<open>wsRef.current\<close>. \<open>send\<close> throws on a socket
  that is still connecting (the handler stops there, after \<open>setIsConnected\<close>) and drops
  the frame on a closing or closed one.
\<close>

definition onopen :: "config \<Rightarrow> provider \<Rightarrow> provider" where
  "onopen cfg st =
     (let st' = st\<lparr>isConnected := True\<rparr>
      in case authToken cfg of
           None \<Rightarrow> st'
         | Some token \<Rightarrow>
             if token = [] then st'
             else (case wsRef st' of
                     None \<Rightarrow> st'
                   | Some i \<Rightarrow>
                       if readyState st' i = Some OPEN
                       then st'\<lparr>outbox := outbox st' @
                              [(i, JObj [(''type'', JStr ''auth''), (''token'', JStr token)])]\<rparr>
                       else st'))"

text \<open>
  \<open>listenersRef.current.forEach(listener => listener(message))\<close>: the listeners are
  called in insertion order, and the first one that throws ends the iteration. The
  result is the invocations made and whether an exception left the loop.
\<close>

fun notify :: "(listener \<Rightarrow> json \<Rightarrow> bool) \<Rightarrow> json \<Rightarrow> listener list \<Rightarrow> (listener \<times> json) list \<times> bool" where
  "notify thr m [] = ([], False)"
| "notify thr m (l # ls) =
     (if thr l m then ([(l, m)], True)
      else (case notify thr m ls of (cs, e) \<Rightarrow> ((l, m) # cs, e)))"

text \<open>
  \<open>onmessage\<close>: the whole body is inside \<open>try\<close>, and the \<open>catch\<close> only logs. So a
  frame that does not parse, a decoded \<open>null\<close> (reading \<open>message.type\<close> throws) and a
  throwing listener all end in the \<open>catch\<close>, with the state as it was when they threw.
\<close>

definition recognized :: "json option \<Rightarrow> bool" where
  "recognized t = (t = Some (JStr ''snag_update'') \<or> t = Some (JStr ''notification''))"

definition onmessage :: "config \<Rightarrow> string \<Rightarrow> provider \<Rightarrow> provider" where
  "onmessage cfg frame st =
     (case parse cfg frame of
        Inl e \<Rightarrow> st
      | Inr message \<Rightarrow>
          (case get_prop (Some message) ''type'' of
             Inl e \<Rightarrow> st
           | Inr t \<Rightarrow>
               if recognized t
               then st\<lparr>lastUpdate := Some message,
                       calls := calls st @ fst (notify (throws cfg) message (listenersRef st))\<rparr>
               else st))"

definition onclose :: "config \<Rightarrow> provider \<Rightarrow> provider" where
  "onclose cfg st =
     (let st' = st\<lparr>isConnected := False\<rparr>
      in if truthy (WS_URL cfg)
         then st'\<lparr>reconnectTimeoutRef := Some (next_timer st'),
                  timers := timers st' @ [next_timer st'],
                  next_timer := Suc (next_timer st')\<rparr>
         else st')"

text \<open>\<open>ws.close()\<close>: a connecting or open socket starts closing; otherwise nothing.\<close>

definition close_socket :: "ready_state \<Rightarrow> ready_state" where
  "close_socket r = (if r = CONNECTING \<or> r = OPEN then CLOSING else r)"

definition disconnect :: "provider \<Rightarrow> provider" where
  "disconnect st =
     (let st' = (case reconnectTimeoutRef st of
                   None \<Rightarrow> st
                 | Some t \<Rightarrow> if t \<noteq> 0 then st\<lparr>timers := removeAll t (timers st)\<rparr> else st)
      in case wsRef st' of
           None \<Rightarrow> st'
         | Some i \<Rightarrow>
             if i < length (sockets st')
             then st'\<lparr>sockets := (sockets st')[i := close_socket (sockets st' ! i)]\<rparr>
             else st')"

definition subscribe :: "listener \<Rightarrow> provider \<Rightarrow> provider" where
  "subscribe l st =
     (if l \<in> set (listenersRef st) then st
      else st\<lparr>listenersRef := listenersRef st @ [l]\<rparr>)"

definition unsubscribe :: "listener \<Rightarrow> provider \<Rightarrow> provider" where
  "unsubscribe l st = st\<lparr>listenersRef := removeAll l (listenersRef st)\<rparr>"

text \<open>
  What can happen to the provider: the host calls one of its four functions, or the
  browser reports on a socket or fires a timeout. A browser event that cannot occur in
  the current state (an open event on a socket that is not connecting, a close event on
  a socket already closed, a frame on a socket that is not open, a timeout that is not
  armed) changes nothing.
\<close>

datatype event =
    Connect
  | Disconnect
  | Subscribe listener
  | Unsubscribe listener
  | Opened nat
  | Closed nat
  | Frame nat string
  | Timeout nat

definition enabled :: "event \<Rightarrow> provider \<Rightarrow> bool" where
  "enabled ev st =
     (case ev of
        Opened i \<Rightarrow> readyState st i = Some CONNECTING
      | Closed i \<Rightarrow> (case readyState st i of None \<Rightarrow> False | Some r \<Rightarrow> r \<noteq> CLOSED)
      | Frame i d \<Rightarrow> readyState st i = Some OPEN
      | Timeout t \<Rightarrow> t \<in> set (timers st)
      | _ \<Rightarrow> True)"

definition step :: "config \<Rightarrow> event \<Rightarrow> provider \<Rightarrow> provider" where
  "step cfg ev st =
     (if \<not> enabled ev st then st
      else case ev of
        Connect \<Rightarrow> connect cfg st
      | Disconnect \<Rightarrow> disconnect st
      | Subscribe l \<Rightarrow> subscribe l st
      | Unsubscribe l \<Rightarrow> unsubscribe l st
      | Opened i \<Rightarrow> onopen cfg (st\<lparr>sockets := (sockets st)[i := OPEN]\<rparr>)
      | Closed i \<Rightarrow> onclose cfg (st\<lparr>sockets := (sockets st)[i := CLOSED]\<rparr>)
      | Frame i d \<Rightarrow> onmessage cfg d st
      | Timeout t \<Rightarrow> connect cfg (st\<lparr>timers := removeAll t (timers st)\<rparr>))"

fun run :: "config \<Rightarrow> event list \<Rightarrow> provider \<Rightarrow> provider" where
  "run cfg [] st = st"
| "run cfg (ev # evs) st = run cfg evs (step cfg ev st)"

text \<open>
  A configuration for the scenarios: a configured URL, a stored token, a decoder that
  knows a \<open>deleted\<close> frame and rejects everything else, and listener \<open>1\<close> throwing.
\<close>

definition frame_deleted_S1 :: string where
  "frame_deleted_S1 = ''{\"type\":\"snag_update\",\"event\":\"deleted\",\"data\":{\"id\":\"S1\"}}''"

definition cfg0 :: config where
  "cfg0 =
     \<lparr>WS_URL = Some ''wss://host/api/ws'', authToken = Some ''t0'',
      parse = (\<lambda>d. if d = frame_deleted_S1 then Inr (snag_update ''deleted'' ''S1'')
                    else if d = ''{}'' then Inr (JObj [])
                    else Inl SyntaxError),
      throws = (\<lambda>l m. l = 1)\<rparr>"

text \<open>An open, authenticated connection with the listeners 0, 1 and 2 subscribed.\<close>

definition three_listeners :: provider where
  "three_listeners = run cfg0 [Subscribe 0, Subscribe 1, Subscribe 2, Connect, Opened 0] init_provider"

section \<open>Workflow actions of the two clients\<close>

text \<open>
  Both clients offer the workflow actions as buttons of the snag detail view, and a
  button that is not rendered (or is disabled) cannot start its handler. An attempt at
  an action is therefore the render condition of its button followed by the handler,
  and its outcome is the request the handler sends, if any.
\<close>

datatype client = Web | Mobile

datatype action = StartWork | MarkComplete | ManagerResolve | AuthorityApprove | DirectEdit

datatype request = Put string "(string \<times> json) list"

text \<open>
  What the person in front of the screen has entered, and the \<open>loading\<close> flag of the
  web modal (true while an update of that modal is in flight). \<open>completionDate\<close> is
  the date picked on the mobile screen, already as ISO text. \<open>edits\<close> gives the edit
  form's content by field name: on the web the value the handler puts into the update
  for the field (\<open>None\<close> for \<open>undefined\<close>), on mobile the edited value where the
  screen finds it different from the snag's and \<open>None\<close> where it finds no change.
\<close>

record inputs =
  loading :: bool
  feedback :: string
  authorityComment :: string
  completionDate :: "string option"
  edits :: "string \<Rightarrow> json option"

definition has_role :: "user option \<Rightarrow> string \<Rightarrow> bool" where
  "has_role u r = (case u of None \<Rightarrow> False | Some usr \<Rightarrow> role usr = r)"

definition assigned_to :: "snag \<Rightarrow> user option \<Rightarrow> bool" where
  "assigned_to s u =
     (case u of None \<Rightarrow> False | Some usr \<Rightarrow> assigned_contractor_id s = Some (user_id usr))"

definition snag_endpoint :: "snag \<Rightarrow> string" where
  "snag_endpoint s = ''/api/snags/'' @ snag_id s"

subsection \<open>Mobile detail screen (\<open>SnagDetailScreen\<close>)\<close>

definition canEdit :: "user option \<Rightarrow> bool" where
  "canEdit u = (has_role u ''manager'' \<or> has_role u ''inspector'')"

definition canUpdateStatus :: "user option \<Rightarrow> snag \<Rightarrow> bool" where
  "canUpdateStatus u s =
     (if has_role u ''manager'' then True
      else if has_role u ''contractor'' \<and> assigned_to s u then True
      else if has_role u ''authority'' then True
      else False)"

definition mobile_available :: "user option \<Rightarrow> snag \<Rightarrow> action \<Rightarrow> bool" where
  "mobile_available u s a =
     (case a of
        StartWork \<Rightarrow>
          canUpdateStatus u s \<and>
          ((has_role u ''contractor'' \<and> status s \<noteq> ''verified'' \<and> status s = ''open'')
           \<or> (has_role u ''manager'' \<and> status s \<noteq> ''verified'' \<and> status s = ''open''))
      | MarkComplete \<Rightarrow>
          canUpdateStatus u s \<and> has_role u ''contractor'' \<and> status s \<noteq> ''verified''
          \<and> (status s = ''in_progress'' \<or> status s = ''open'')
          \<and> \<not> truthy_bool (contractor_completed s)
      | ManagerResolve \<Rightarrow>
          canUpdateStatus u s \<and> has_role u ''manager'' \<and> status s \<noteq> ''verified''
          \<and> status s = ''in_progress''
      | AuthorityApprove \<Rightarrow>
          canUpdateStatus u s \<and> has_role u ''authority''
          \<and> (status s = ''resolved'' \<or> status s = ''in_progress'')
          \<and> \<not> truthy_bool (authority_approved s)
      | DirectEdit \<Rightarrow> canEdit u)"

definition updateStatus :: "string \<Rightarrow> string \<Rightarrow> snag \<Rightarrow> request" where
  "updateStatus newStatus now s =
     Put (snag_endpoint s)
       ([(''status'', JStr newStatus)]
        @ (if newStatus = ''in_progress'' \<and> \<not> truthy (work_started_date s)
           then [(''work_started_date'', JStr now)] else [])
        @ (if newStatus = ''resolved'' \<and> \<not> truthy (work_completed_date s)
           then [(''work_completed_date'', JStr now)] else []))"

text \<open>
  \<open>!feedback.trim()\<close>: the text is empty once white space is trimmed off both ends,
  that is, the text consists of white space only. Text is held as the bytes of its UTF-8
  encoding, and \<open>white_space\<close> lists the encodings of the code points that
  \<open>String.prototype.trim\<close> strips: the ECMAScript white space (tab, vertical tab, form
  feed, space, U+00A0, U+FEFF and the space separators U+1680, U+2000 to U+200A, U+202F,
  U+205F, U+3000) and the line terminators (line feed, carriage return, U+2028, U+2029).
\<close>

definition white_space :: "string list" where
  "white_space =
     [[CHR 0x09], [CHR 0x0A], [CHR 0x0B], [CHR 0x0C], [CHR 0x0D], [CHR 0x20],
      [CHR 0xC2, CHR 0xA0],
      [CHR 0xE1, CHR 0x9A, CHR 0x80],
      [CHR 0xE2, CHR 0x80, CHR 0x80], [CHR 0xE2, CHR 0x80, CHR 0x81],
      [CHR 0xE2, CHR 0x80, CHR 0x82], [CHR 0xE2, CHR 0x80, CHR 0x83],
      [CHR 0xE2, CHR 0x80, CHR 0x84], [CHR 0xE2, CHR 0x80, CHR 0x85],
      [CHR 0xE2, CHR 0x80, CHR 0x86], [CHR 0xE2, CHR 0x80, CHR 0x87],
      [CHR 0xE2, CHR 0x80, CHR 0x88], [CHR 0xE2, CHR 0x80, CHR 0x89],
      [CHR 0xE2, CHR 0x80, CHR 0x8A],
      [CHR 0xE2, CHR 0x80, CHR 0xA8], [CHR 0xE2, CHR 0x80, CHR 0xA9],
      [CHR 0xE2, CHR 0x80, CHR 0xAF],
      [CHR 0xE2, CHR 0x81, CHR 0x9F],
      [CHR 0xE3, CHR 0x80, CHR 0x80],
      [CHR 0xEF, CHR 0xBB, CHR 0xBF]]"

text \<open>The number of bytes of the white space code point a text starts with, 0 if none.\<close>

definition space_prefix :: "string \<Rightarrow> nat" where
  "space_prefix t =
     (case find (\<lambda>w. prefix w t) white_space of None \<Rightarrow> 0 | Some w \<Rightarrow> length w)"

function blank :: "string \<Rightarrow> bool" where
  "blank t =
     (if t = [] then True
      else if space_prefix t = 0 then False
      else blank (drop (space_prefix t) t))"
  by pat_completeness auto
termination
  by (relation "measure length") auto

declare blank.simps [simp del]

definition submitFeedback :: "inputs \<Rightarrow> snag \<Rightarrow> request option" where
  "submitFeedback inp s =
     (if blank (feedback inp) then None
      else Some (Put (snag_endpoint s)
             [(''authority_feedback'', JStr (feedback inp)),
              (''authority_comment'', JStr (authorityComment inp)),
              (''authority_approved'', JBool True),
              (''status'', JStr ''verified'')]))"

definition submitContractorCompletion :: "inputs \<Rightarrow> string \<Rightarrow> snag \<Rightarrow> request" where
  "submitContractorCompletion inp now s =
     Put (snag_endpoint s)
       ([(''contractor_completed'', JBool True), (''work_completed_date'', JStr now)]
        @ (case completionDate inp of
             None \<Rightarrow> []
           | Some d \<Rightarrow> [(''contractor_completion_date'', JStr d)]))"

definition mobile_edit_keys :: "string list" where
  "mobile_edit_keys =
     [''description'', ''location'', ''project_name'', ''possible_solution'', ''priority'',
      ''cost_estimate'', ''assigned_contractor_id'', ''due_date'', ''photos'',
      ''assigned_authority_ids'']"

text \<open>
  \<open>saveChanges\<close> puts each field that changed into \<open>updateData\<close> and sends nothing
  when no field did.
\<close>

definition saveChanges :: "inputs \<Rightarrow> snag \<Rightarrow> request option" where
  "saveChanges inp s =
     (let updateData =
            concat (map (\<lambda>k. case edits inp k of None \<Rightarrow> [] | Some v \<Rightarrow> [(k, v)])
                      mobile_edit_keys)
      in if updateData = [] then None else Some (Put (snag_endpoint s) updateData))"

definition mobile_attempt :: "user option \<Rightarrow> action \<Rightarrow> inputs \<Rightarrow> string \<Rightarrow> snag \<Rightarrow> request option" where
  "mobile_attempt u a inp now s =
     (if \<not> mobile_available u s a then None
      else case a of
        StartWork \<Rightarrow> Some (updateStatus ''in_progress'' now s)
      | MarkComplete \<Rightarrow> Some (submitContractorCompletion inp now s)
      | ManagerResolve \<Rightarrow> Some (updateStatus ''resolved'' now s)
      | AuthorityApprove \<Rightarrow> submitFeedback inp s
      | DirectEdit \<Rightarrow> saveChanges inp s)"

subsection \<open>Web detail modal (\<open>SnagDetailModal\<close>)\<close>

text \<open>
  The modal has no button for the manager's resolve step; a manager changes the status
  through the edit form. The approve button is rendered for every authority and is
  disabled while \<open>loading\<close> or when the status is \<open>resolved\<close>.
\<close>

definition web_available :: "inputs \<Rightarrow> user option \<Rightarrow> snag \<Rightarrow> action \<Rightarrow> bool" where
  "web_available inp u s a =
     (case a of
        StartWork \<Rightarrow>
          has_role u ''contractor'' \<and> assigned_to s u
          \<and> \<not> truthy (work_started_date s) \<and> \<not> loading inp
      | MarkComplete \<Rightarrow>
          has_role u ''contractor'' \<and> assigned_to s u
          \<and> truthy (work_started_date s) \<and> \<not> truthy (work_completed_date s)
          \<and> \<not> loading inp
      | ManagerResolve \<Rightarrow> False
      | AuthorityApprove \<Rightarrow>
          has_role u ''authority'' \<and> \<not> (loading inp \<or> status s = ''resolved'')
      | DirectEdit \<Rightarrow> canEdit u \<and> \<not> loading inp)"

definition handleContractorComplete :: "string \<Rightarrow> snag \<Rightarrow> request" where
  "handleContractorComplete now s =
     Put (snag_endpoint s)
       [(''contractor_completed'', JBool True), (''work_completed_date'', JStr now)]"

definition handleContractorStartWork :: "string \<Rightarrow> snag \<Rightarrow> request" where
  "handleContractorStartWork now s =
     Put (snag_endpoint s) [(''work_started_date'', JStr now)]"

definition handleAuthorityApprove :: "inputs \<Rightarrow> snag \<Rightarrow> request" where
  "handleAuthorityApprove inp s =
     Put (snag_endpoint s)
       [(''authority_approved'', JBool True), (''authority_feedback'', JStr (feedback inp))]"

definition web_edit_keys :: "string list" where
  "web_edit_keys =
     [''description'', ''location'', ''possible_solution'', ''priority'', ''status'',
      ''cost_estimate'', ''assigned_contractor_id'', ''due_date'', ''authority_feedback'',
      ''utm_coordinates'', ''photos'']"

text \<open>
  \<open>handleSaveEdit\<close> sends the form with its photos. A field whose value is
  \<open>undefined\<close> is left out of the JSON body; the handler itself turns an empty cost
  estimate, due date or contractor into \<open>null\<close>, which is sent.
\<close>

definition handleSaveEdit :: "inputs \<Rightarrow> snag \<Rightarrow> request" where
  "handleSaveEdit inp s =
     Put (snag_endpoint s)
       (concat (map (\<lambda>k. case edits inp k of None \<Rightarrow> [] | Some v \<Rightarrow> [(k, v)])
                  web_edit_keys))"

definition web_attempt :: "user option \<Rightarrow> action \<Rightarrow> inputs \<Rightarrow> string \<Rightarrow> snag \<Rightarrow> request option" where
  "web_attempt u a inp now s =
     (if \<not> web_available inp u s a then None
      else case a of
        StartWork \<Rightarrow> Some (handleContractorStartWork now s)
      | MarkComplete \<Rightarrow> Some (handleContractorComplete now s)
      | ManagerResolve \<Rightarrow> None
      | AuthorityApprove \<Rightarrow> Some (handleAuthorityApprove inp s)
      | DirectEdit \<Rightarrow> Some (handleSaveEdit inp s))"

subsection \<open>Either client\<close>

definition available :: "client \<Rightarrow> inputs \<Rightarrow> user option \<Rightarrow> snag \<Rightarrow> action \<Rightarrow> bool" where
  "available c inp u s a =
     (case c of Web \<Rightarrow> web_available inp u s a | Mobile \<Rightarrow> mobile_available u s a)"

definition attempt :: "client \<Rightarrow> user option \<Rightarrow> action \<Rightarrow> inputs \<Rightarrow> string \<Rightarrow> snag \<Rightarrow> request option" where
  "attempt c u a inp now s =
     (case c of Web \<Rightarrow> web_attempt u a inp now s | Mobile \<Rightarrow> mobile_attempt u a inp now s)"

text \<open>
  Modelled from the spec: the backend's \<open>PUT /snags/{id}\<close>, which is not among the
  sources. The specification calls it a mutation of the snag; here the fields a request
  carries replace the snag's and every other field stays as it is. Fields of the edit
  forms that the \<open>snag\<close> record does not have are ignored.
\<close>

definition put_string :: "(string \<times> json) list \<Rightarrow> string \<Rightarrow> string option \<Rightarrow> string option" where
  "put_string body k old =
     (case map_of body k of
        Some (JStr v) \<Rightarrow> Some v
      | Some JNull \<Rightarrow> None
      | _ \<Rightarrow> old)"

definition put_bool :: "(string \<times> json) list \<Rightarrow> string \<Rightarrow> bool option \<Rightarrow> bool option" where
  "put_bool body k old =
     (case map_of body k of
        Some (JBool b) \<Rightarrow> Some b
      | Some JNull \<Rightarrow> None
      | _ \<Rightarrow> old)"

definition put_body :: "(string \<times> json) list \<Rightarrow> snag \<Rightarrow> snag" where
  "put_body body s =
     s\<lparr>project_name := put_string body ''project_name'' (project_name s),
       description := put_string body ''description'' (description s),
       location := put_string body ''location'' (location s),
       status := (case map_of body ''status'' of Some (JStr v) \<Rightarrow> v | _ \<Rightarrow> status s),
       assigned_contractor_id :=
         put_string body ''assigned_contractor_id'' (assigned_contractor_id s),
       work_started_date := put_string body ''work_started_date'' (work_started_date s),
       work_completed_date := put_string body ''work_completed_date'' (work_completed_date s),
       contractor_completion_date :=
         put_string body ''contractor_completion_date'' (contractor_completion_date s),
       contractor_completed := put_bool body ''contractor_completed'' (contractor_completed s),
       authority_approved := put_bool body ''authority_approved'' (authority_approved s),
       authority_feedback := put_string body ''authority_feedback'' (authority_feedback s),
       authority_comment := put_string body ''authority_comment'' (authority_comment s)\<rparr>"

fun put :: "request \<Rightarrow> snag \<Rightarrow> snag" where
  "put (Put url body) s = put_body body s"

text \<open>One application of a transition: the attempt, and the snag after its request.\<close>

definition apply_transition :: "client \<Rightarrow> user option \<Rightarrow> action \<Rightarrow> inputs \<Rightarrow> string \<Rightarrow> snag \<Rightarrow> snag" where
  "apply_transition c u a inp now s =
     (case attempt c u a inp now s of None \<Rightarrow> s | Some r \<Rightarrow> put r s)"

definition stamps :: "snag \<Rightarrow> string option \<times> string option \<times> string option" where
  "stamps s = (work_started_date s, work_completed_date s, contractor_completion_date s)"

text \<open>
  The permission table of the specification (section 4.3), by role: who may start
  work, mark complete, resolve, approve, and edit fields directly.
\<close>

definition authorized_roles :: "action \<Rightarrow> string list" where
  "authorized_roles a =
     (case a of
        StartWork \<Rightarrow> [''contractor'', ''manager'']
      | MarkComplete \<Rightarrow> [''contractor'']
      | ManagerResolve \<Rightarrow> [''manager'']
      | AuthorityApprove \<Rightarrow> [''authority'']
      | DirectEdit \<Rightarrow> [''manager'', ''inspector''])"

definition authorized :: "user option \<Rightarrow> action \<Rightarrow> bool" where
  "authorized u a =
     (case u of None \<Rightarrow> False | Some usr \<Rightarrow> role usr \<in> set (authorized_roles a))"

text \<open>People and inputs for the scenarios.\<close>

definition contractor_c1 :: user where
  "contractor_c1 = \<lparr>user_id = ''c1'', role = ''contractor''\<rparr>"

definition authority_a1 :: user where
  "authority_a1 = \<lparr>user_id = ''a1'', role = ''authority''\<rparr>"

definition manager_m1 :: user where
  "manager_m1 = \<lparr>user_id = ''m1'', role = ''manager''\<rparr>"

definition inputs0 :: inputs where
  "inputs0 =
     \<lparr>loading = False, feedback = ''looks good'', authorityComment = [],
      completionDate = None, edits = (\<lambda>k. None)\<rparr>"

text \<open>Two instants, as \<open>new Date().toISOString()\<close> gives them, and more inputs.\<close>

definition t_first :: string where
  "t_first = ''2026-01-30T10:00:00.000Z''"

definition t_second :: string where
  "t_second = ''2026-01-31T09:30:00.000Z''"

definition t_third :: string where
  "t_third = ''2026-02-01T08:15:00.000Z''"

text \<open>Feedback that is a space, a no-break space (U+00A0) and a line feed.\<close>

definition inputs_blank :: inputs where
  "inputs_blank = inputs0\<lparr>feedback := [CHR 0x20, CHR 0xC2, CHR 0xA0, CHR 0x0A]\<rparr>"

definition snag_started :: snag where
  "snag_started = snag_S1\<lparr>status := ''in_progress'', work_started_date := Some t_first\<rparr>"

definition snag_resolved :: snag where
  "snag_resolved = snag_S1\<lparr>status := ''resolved'', work_started_date := Some t_first\<rparr>"

definition snag_approved :: snag where
  "snag_approved = snag_started\<lparr>authority_approved := Some True\<rparr>"

text \<open>
  A manager reopens a resolved snag through the web edit form: the form holds the
  snag's fields as the modal initialised them, with the status set back to
  \<open>in_progress\<close>.
\<close>

definition form_reopen :: "(string \<times> json) list" where
  "form_reopen =
     [(''description'', JStr ''Cracked tile''), (''location'', JStr ''Lobby''),
      (''possible_solution'', JStr []), (''priority'', JStr ''medium''),
      (''status'', JStr ''in_progress''), (''cost_estimate'', JNull),
      (''assigned_contractor_id'', JStr ''c1''), (''due_date'', JNull),
      (''authority_feedback'', JStr []), (''utm_coordinates'', JStr []),
      (''photos'', JArr [])]"

definition inputs_reopen :: inputs where
  "inputs_reopen = inputs0\<lparr>edits := map_of form_reopen\<rparr>"

text \<open>
  A history of the snag \<open>S1\<close>: work has started; the manager resolves it on the
  mobile screen; the manager reopens it through the web edit form; the contractor then
  marks the work complete on the mobile screen.
\<close>

definition after_resolve :: snag where
  "after_resolve =
     apply_transition Mobile (Some manager_m1) ManagerResolve inputs0 t_second snag_started"

definition after_reopen :: snag where
  "after_reopen =
     apply_transition Web (Some manager_m1) DirectEdit inputs_reopen t_second after_resolve"

definition after_complete :: snag where
  "after_complete =
     apply_transition Mobile (Some contractor_c1) MarkComplete inputs0 t_third after_reopen"

section \<open>Derived view of the web snag list\<close>

text \<open>
  Text is held as the bytes of its UTF-8 encoding; for well-formed text, a needle occurs
  in a text exactly when its encoding occurs in the text's encoding.
  \<open>String.prototype.toLowerCase\<close> follows the Unicode case mappings and belongs to
  the JavaScript engine: the derived view takes it as the parameter \<open>toLowerCase\<close>.
\<close>

text \<open>\<open>hay.includes(needle)\<close>: the needle occurs in the text as a contiguous run.\<close>

definition includes_str :: "string \<Rightarrow> string \<Rightarrow> bool" where
  "includes_str hay needle = sublist needle hay"

text \<open>
  \<open>String(n)\<close> for a query number: its decimal digits. This is what JavaScript gives
  for the integers a number holds exactly, those below \<open>2 ^ 53\<close> (from \<open>10 ^ 21\<close> on
  it switches to exponent notation); the properties below are about such numbers.
\<close>

definition digit :: "nat \<Rightarrow> char" where
  "digit d = char_of (48 + d)"

fun String :: "nat \<Rightarrow> string" where
  "String n = (if n < 10 then [digit n] else String (n div 10) @ [digit (n mod 10)])"

declare String.simps [simp del]

text \<open>
  The body of the filter callback for a search text that is not empty; \<open>?.\<close> makes
  a missing field count as no match. \<open>search\<close> is the search text already in lower
  case.
\<close>

definition matches :: "(string \<Rightarrow> string) \<Rightarrow> string \<Rightarrow> snag \<Rightarrow> bool" where
  "matches toLowerCase search s =
     ((case description s of None \<Rightarrow> False | Some d \<Rightarrow> includes_str (toLowerCase d) search)
      \<or> (case location s of None \<Rightarrow> False | Some l \<Rightarrow> includes_str (toLowerCase l) search)
      \<or> (case project_name s of None \<Rightarrow> False | Some p \<Rightarrow> includes_str (toLowerCase p) search)
      \<or> includes_str (String (query_no s)) search)"

definition filteredSnags :: "(string \<Rightarrow> string) \<Rightarrow> snag list \<Rightarrow> filters \<Rightarrow> snag list" where
  "filteredSnags toLowerCase sn f =
     filter (\<lambda>s. if f_search f = [] then True
                 else matches toLowerCase (toLowerCase (f_search f)) s) sn"

text \<open>
  \<open>Math.ceil(filteredSnags.length / itemsPerPage)\<close>. The page size comes from a select
  with the options 10, 25, 50 and 100; a size of 0 is written out as JavaScript has it.
\<close>

datatype js_number = Finite nat | Infinity | NaN

definition totalPages :: "snag list \<Rightarrow> nat \<Rightarrow> js_number" where
  "totalPages filtered itemsPerPage =
     (if itemsPerPage = 0 then (if filtered = [] then NaN else Infinity)
      else Finite ((length filtered + itemsPerPage - 1) div itemsPerPage))"

text \<open>
  \<open>filteredSnags.slice(startIndex, startIndex + itemsPerPage)\<close> with
  \<open>startIndex = (currentPage - 1) * itemsPerPage\<close>; for page 0 the slice ends at 0
  and is empty.
\<close>

definition paginatedSnags :: "snag list \<Rightarrow> nat \<Rightarrow> nat \<Rightarrow> snag list" where
  "paginatedSnags filtered currentPage itemsPerPage =
     (if currentPage = 0 then []
      else take itemsPerPage (drop ((currentPage - 1) * itemsPerPage) filtered))"

text \<open>
  The words of the specification: a search text is a case-insensitive substring of a
  field when, both taken to lower case, it occurs in the field; it is absent from a snag
  when it is one of none of the four fields.
\<close>

definition ci_substring :: "(string \<Rightarrow> string) \<Rightarrow> string \<Rightarrow> string \<Rightarrow> bool" where
  "ci_substring toLowerCase needle hay = sublist (toLowerCase needle) (toLowerCase hay)"

definition search_absent :: "(string \<Rightarrow> string) \<Rightarrow> string \<Rightarrow> snag \<Rightarrow> bool" where
  "search_absent toLowerCase search s =
     ((case description s of None \<Rightarrow> True | Some d \<Rightarrow> \<not> ci_substring toLowerCase search d)
      \<and> (case location s of None \<Rightarrow> True | Some l \<Rightarrow> \<not> ci_substring toLowerCase search l)
      \<and> (case project_name s of None \<Rightarrow> True | Some p \<Rightarrow> \<not> ci_substring toLowerCase search p)
      \<and> \<not> ci_substring toLowerCase search (String (query_no s)))"

definition decimal_text :: "string \<Rightarrow> bool" where
  "decimal_text t = list_all (\<lambda>c. c \<in> set ''0123456789'') t"

text \<open>
  For the scenarios: the lower-casing of the letters A to Z, which is what
  \<open>toLowerCase\<close> does on ASCII text, and the word \<open>ecole\<close> with its first letter
  a capital E with acute accent (U+00C9) and a small one (U+00E9).
\<close>

definition ecole_capital :: string where
  "ecole_capital = [CHR 0xC3, CHR 0x89] @ ''cole''"

definition ecole_small :: string where
  "ecole_small = [CHR 0xC3, CHR 0xA9] @ ''cole''"

definition ascii_lower_char :: "char \<Rightarrow> char" where
  "ascii_lower_char c =
     (let n = (of_char c :: nat) in if 65 \<le> n \<and> n \<le> 90 then char_of (n + 32) else c)"

definition ascii_lower :: "string \<Rightarrow> string" where
  "ascii_lower t = map ascii_lower_char t"

section \<open>Properties of the view reconciler\<close>

lemma remove_deleted_id:
  "remove_deleted (snag_update ev x) prev = Inr (filter (\<lambda>s. snag_id s \<noteq> x) prev)"
  by (simp add: remove_deleted_def snag_update_def)

lemma snag_update_type:
  "get_prop (Some (snag_update ev x)) ''type'' = Inr (Some (JStr ''snag_update''))"
  by (simp add: snag_update_def)

lemma snag_update_event:
  "get_prop (Some (snag_update ev x)) ''event'' = Inr (Some (JStr ev))"
  by (simp add: snag_update_def)

lemma snags_listener_deleted:
  "snags_listener f env (snag_update ''deleted'' x) pg =
     Inr (pg\<lparr>snags := filter (\<lambda>s. snag_id s \<noteq> x) (snags pg)\<rparr>)"
  by (simp add: snags_listener_def snag_update_type snag_update_event remove_deleted_id)

lemma reconcile_deleted:
  "reconcile f env (snag_update ''deleted'' x) pg =
     pg\<lparr>snags := filter (\<lambda>s. snag_id s \<noteq> x) (snags pg)\<rparr>"
  by (simp add: reconcile_def snags_listener_deleted)

text \<open>
  C7. Applying the \<open>deleted\<close> reconciliation for an id twice gives the same page as
  applying it once, and when no snag of the snapshot has that id the page is unchanged.
\<close>

theorem deleted_idempotent:
  "reconcile f env (snag_update ''deleted'' x) (reconcile f env (snag_update ''deleted'' x) pg)
     = reconcile f env (snag_update ''deleted'' x) pg
   \<and> (x \<notin> snag_id ` set (snags pg) \<longrightarrow> reconcile f env (snag_update ''deleted'' x) pg = pg)"
proof
  show "reconcile f env (snag_update ''deleted'' x)
          (reconcile f env (snag_update ''deleted'' x) pg)
        = reconcile f env (snag_update ''deleted'' x) pg"
    by (simp add: reconcile_deleted)
next
  show "x \<notin> snag_id ` set (snags pg) \<longrightarrow> reconcile f env (snag_update ''deleted'' x) pg = pg"
  proof
    assume absent: "x \<notin> snag_id ` set (snags pg)"
    then have "filter (\<lambda>s. snag_id s \<noteq> x) (snags pg) = snags pg"
      by (auto simp: filter_id_conv)
    then show "reconcile f env (snag_update ''deleted'' x) pg = pg"
      by (simp add: reconcile_deleted)
  qed
qed

theorem deleted_idempotent_witness:
  "''S2'' \<notin> snag_id ` set (snags page_S1)
   \<and> reconcile no_filters server_S1_S2 (snag_update ''deleted'' ''S2'') page_S1 = page_S1
   \<and> reconcile no_filters server_S1_S2 (snag_update ''deleted'' ''S1'')
        (reconcile no_filters server_S1_S2 (snag_update ''deleted'' ''S1'') page_S1)
      = reconcile no_filters server_S1_S2 (snag_update ''deleted'' ''S1'') page_S1"
proof -
  have absent: "''S2'' \<notin> snag_id ` set (snags page_S1)"
    by (simp add: page_S1_def snag_S1_def)
  from deleted_idempotent [of no_filters server_S1_S2 "''S2''" page_S1] absent
  have "reconcile no_filters server_S1_S2 (snag_update ''deleted'' ''S2'') page_S1 = page_S1"
    by blast
  with absent deleted_idempotent [of no_filters server_S1_S2 "''S1''" page_S1]
  show ?thesis by blast
qed

text \<open>
  C10. A \<open>deleted\<close> event for id \<open>x\<close> adds nothing to the snapshot and keeps its order
  (the new snapshot is a subsequence of the old one), and the snags whose id is not
  \<open>x\<close> are the same, in the same order, before and after. The project names and the
  request log are untouched: nothing is fetched.
\<close>

theorem deleted_frame:
  "subseq (snags (reconcile f env (snag_update ''deleted'' x) pg)) (snags pg)
   \<and> filter (\<lambda>s. snag_id s \<noteq> x) (snags (reconcile f env (snag_update ''deleted'' x) pg))
       = filter (\<lambda>s. snag_id s \<noteq> x) (snags pg)
   \<and> projects (reconcile f env (snag_update ''deleted'' x) pg) = projects pg
   \<and> requests (reconcile f env (snag_update ''deleted'' x) pg) = requests pg"
  by (simp add: reconcile_deleted)

text \<open>
  C5, as the code has it. On an \<open>updated\<close> event the page does not fetch the one snag:
  it asks for the whole collection again, with the filters of the page, and on success
  replaces the snapshot by the answer, whether or not the snag was in the snapshot; a
  failed fetch leaves the snapshot as it was.
\<close>

theorem updated_refetches_collection:
  assumes "get_prop (Some message) ''type'' = Inr (Some (JStr ''snag_update''))"
    and "get_prop (Some message) ''event'' = Inr (Some (JStr ''updated''))"
  shows "snags_listener f env message pg =
           Inr (pg\<lparr>requests := requests pg @ [snags_url f],
                   snags := (case snags_response env of
                               Inr data \<Rightarrow> data | Inl e \<Rightarrow> snags pg)\<rparr>)"
  using assms
  by (cases "snags_response env") (simp_all add: snags_listener_def loadSnags_def Let_def)

theorem updated_refetches_collection_witness:
  "get_prop (Some (snag_update ''updated'' ''S9'')) ''type'' = Inr (Some (JStr ''snag_update''))
   \<and> get_prop (Some (snag_update ''updated'' ''S9'')) ''event'' = Inr (Some (JStr ''updated''))
   \<and> snags_listener no_filters server_S1_S2 (snag_update ''updated'' ''S9'') page_S1 =
       Inr (page_S1\<lparr>requests := [''/api/snags?''], snags := [snag_S1, snag_S2]\<rparr>)"
proof -
  have t: "get_prop (Some (snag_update ''updated'' ''S9'')) ''type''
             = Inr (Some (JStr ''snag_update''))"
    by (rule snag_update_type)
  have e: "get_prop (Some (snag_update ''updated'' ''S9'')) ''event''
             = Inr (Some (JStr ''updated''))"
    by (rule snag_update_event)
  show ?thesis
    using t e updated_refetches_collection [OF t e, of no_filters server_S1_S2 page_S1]
    by (simp add: server_S1_S2_def page_S1_def snags_url_def no_filters_def)
qed

text \<open>
  The claim as written fails: no snag with id \<open>S9\<close> is in the snapshot, and the
  \<open>updated\<close> event for \<open>S9\<close> still changes the snapshot.
\<close>

theorem updated_absent_counterexample:
  "''S9'' \<notin> snag_id ` set (snags page_S1)
   \<and> snags (reconcile no_filters server_S1_S2 (snag_update ''updated'' ''S9'') page_S1)
       \<noteq> snags page_S1"
  by (simp add: reconcile_def snags_listener_def snag_update_def loadSnags_def Let_def
        server_S1_S2_def page_S1_def snag_S1_def snag_S2_def)

section \<open>Properties of the transport channel and the event bus\<close>

lemmas transport_defs = step_def enabled_def connect_def onopen_def disconnect_def onclose_def
  subscribe_def unsubscribe_def readyState_def close_socket_def truthy_def Let_def

lemma notify_calls:
  "fst (notify thr m (before @ l # after)) = map (\<lambda>x. (x, m)) (before @ [l])"
  if "thr l m" "\<forall>b\<in>set before. \<not> thr b m"
  using that by (induction before) (auto split: prod.splits)

lemma three_listeners_eq:
  "three_listeners =
     \<lparr>isConnected = True, lastUpdate = None, wsRef = Some 0, sockets = [OPEN],
      reconnectTimeoutRef = None, timers = [], next_timer = 1, listenersRef = [0, 1, 2],
      outbox = [(0, JObj [(''type'', JStr ''auth''), (''token'', JStr ''t0'')])],
      calls = []\<rparr>"
  by (simp add: three_listeners_def transport_defs cfg0_def init_provider_def)

lemma parse_cfg0_deleted: "parse cfg0 frame_deleted_S1 = Inr (snag_update ''deleted'' ''S1'')"
  by (simp add: cfg0_def)

lemma parse_cfg0_garbage: "parse cfg0 ''garbage'' = Inl SyntaxError"
  by (simp add: cfg0_def frame_deleted_S1_def)

lemma parse_cfg0_empty: "parse cfg0 ''{}'' = Inr (JObj [])"
  by (simp add: cfg0_def frame_deleted_S1_def)

text \<open>
  C8. A frame that \<open>JSON.parse\<close> rejects, or whose decoded value has no \<open>type\<close>
  equal to \<open>snag_update\<close> or \<open>notification\<close>, leaves the provider exactly as it was:
  no listener is called, \<open>lastUpdate\<close> keeps its value, the subscriptions and the
  connection stay, and the handler returns normally (the exception ends in its
  \<open>catch\<close>).
\<close>

theorem malformed_frame_dropped:
  assumes "(\<exists>e. parse cfg frame = Inl e)
     \<or> (\<exists>m. parse cfg frame = Inr m
            \<and> get_prop (Some m) ''type'' \<noteq> Inr (Some (JStr ''snag_update''))
            \<and> get_prop (Some m) ''type'' \<noteq> Inr (Some (JStr ''notification'')))"
  shows "onmessage cfg frame st = st \<and> step cfg (Frame i frame) st = st"
proof -
  have "onmessage cfg frame st = st"
    using assms by (auto simp: onmessage_def recognized_def split: sum.splits)
  then show ?thesis by (simp add: step_def)
qed

theorem malformed_frame_dropped_witness:
  "parse cfg0 ''garbage'' = Inl SyntaxError
   \<and> step cfg0 (Frame 0 ''garbage'') three_listeners = three_listeners
   \<and> parse cfg0 ''{}'' = Inr (JObj [])
   \<and> get_prop (Some (JObj [])) ''type'' = Inr None
   \<and> step cfg0 (Frame 0 ''{}'') three_listeners = three_listeners
   \<and> enabled (Frame 0 ''garbage'') three_listeners"
proof -
  have g: "parse cfg0 ''garbage'' = Inl SyntaxError" by (rule parse_cfg0_garbage)
  have e: "parse cfg0 ''{}'' = Inr (JObj [])" by (rule parse_cfg0_empty)
  have t: "get_prop (Some (JObj [])) ''type'' = Inr None" by simp
  have en: "enabled (Frame 0 ''garbage'') three_listeners"
    by (simp add: three_listeners_eq enabled_def readyState_def)
  from g malformed_frame_dropped [of cfg0 "''garbage''" three_listeners 0]
  have 1: "step cfg0 (Frame 0 ''garbage'') three_listeners = three_listeners" by blast
  from e t malformed_frame_dropped [of cfg0 "''{}''" three_listeners 0]
  have 2: "step cfg0 (Frame 0 ''{}'') three_listeners = three_listeners" by simp
  from g e t en 1 2 show ?thesis by blast
qed

text \<open>
  C4, as the code has it. When a recognized message is fanned out and listener \<open>l\<close> is
  the first that throws, \<open>l\<close> stays registered and the exception ends in the handler's
  \<open>catch\<close>; the listeners registered before \<open>l\<close> and \<open>l\<close> itself have been called
  with the message, and the listeners registered after \<open>l\<close> are not called for it.
\<close>

theorem throwing_listener:
  assumes "parse cfg frame = Inr m" and "get_prop (Some m) ''type'' = Inr t" and "recognized t"
    and "listenersRef st = before @ l # after"
    and "throws cfg l m" and "\<forall>b\<in>set before. \<not> throws cfg b m"
  shows "listenersRef (onmessage cfg frame st) = listenersRef st
       \<and> calls (onmessage cfg frame st) = calls st @ map (\<lambda>x. (x, m)) (before @ [l])"
  using assms notify_calls [of "throws cfg" l m before after]
  by (simp add: onmessage_def)

theorem throwing_listener_witness:
  "listenersRef three_listeners = [0] @ 1 # [2]
   \<and> throws cfg0 1 (snag_update ''deleted'' ''S1'')
   \<and> listenersRef (onmessage cfg0 frame_deleted_S1 three_listeners) = [0, 1, 2]
   \<and> calls (onmessage cfg0 frame_deleted_S1 three_listeners)
       = [(0, snag_update ''deleted'' ''S1''), (1, snag_update ''deleted'' ''S1'')]"
proof -
  have p: "parse cfg0 frame_deleted_S1 = Inr (snag_update ''deleted'' ''S1'')"
    by (rule parse_cfg0_deleted)
  have t: "get_prop (Some (snag_update ''deleted'' ''S1'')) ''type''
             = Inr (Some (JStr ''snag_update''))"
    by (rule snag_update_type)
  have r: "recognized (Some (JStr ''snag_update''))" by (simp add: recognized_def)
  have ls: "listenersRef three_listeners = [0] @ 1 # [2]" by (simp add: three_listeners_eq)
  have th: "throws cfg0 1 (snag_update ''deleted'' ''S1'')" by (simp add: cfg0_def)
  have nb: "\<forall>b\<in>set [0]. \<not> throws cfg0 b (snag_update ''deleted'' ''S1'')"
    by (simp add: cfg0_def)
  from throwing_listener [OF p t r ls th nb] ls th
  show ?thesis by (simp add: three_listeners_eq)
qed

text \<open>
  The claim as written fails: with listeners 0, 1, 2 subscribed in that order and
  listener 1 throwing, listener 2 is registered, does not throw, and is not called.
\<close>

theorem throwing_listener_counterexample:
  "2 \<in> set (listenersRef three_listeners)
   \<and> throws cfg0 1 (snag_update ''deleted'' ''S1'')
   \<and> \<not> throws cfg0 2 (snag_update ''deleted'' ''S1'')
   \<and> (2, snag_update ''deleted'' ''S1'')
        \<notin> set (calls (step cfg0 (Frame 0 frame_deleted_S1) three_listeners))"
  by (simp add: three_listeners_eq step_def enabled_def readyState_def onmessage_def
        parse_cfg0_deleted snag_update_type recognized_def) (simp add: cfg0_def)

text \<open>
  C3 on the code. The host connects, the socket opens, the host calls \<open>disconnect()\<close>:
  the socket is closing and no timeout is armed. When the browser then reports the
  socket closed, \<open>onclose\<close> arms the reconnect timeout, and when that fires
  \<open>connect\<close> constructs a second socket, without the host having called
  \<open>connect()\<close> again.
\<close>

theorem reconnect_after_disconnect:
  "sockets (run cfg0 [Connect, Opened 0, Disconnect] init_provider) = [CLOSING]
   \<and> timers (run cfg0 [Connect, Opened 0, Disconnect] init_provider) = []
   \<and> timers (run cfg0 [Connect, Opened 0, Disconnect, Closed 0] init_provider) = [1]
   \<and> sockets (run cfg0 [Connect, Opened 0, Disconnect, Closed 0, Timeout 1] init_provider)
       = [CLOSED, CONNECTING]"
  by (simp add: transport_defs cfg0_def init_provider_def)

text \<open>
  The same from any state of the provider: with a URL configured and \<open>wsRef.current\<close>
  open, \<open>disconnect()\<close> followed by the socket's close event arms a timeout, and
  when it fires there is one socket more.
\<close>

lemma disconnect_open:
  assumes "wsRef st = Some i" and "readyState st i = Some OPEN"
  shows "sockets (disconnect st) = (sockets st)[i := CLOSING]
       \<and> wsRef (disconnect st) = Some i
       \<and> next_timer (disconnect st) = next_timer st"
proof -
  from assms(2) have i: "i < length (sockets st)" and o: "sockets st ! i = OPEN"
    by (simp_all add: readyState_def split: if_splits)
  show ?thesis
  proof (cases "reconnectTimeoutRef st")
    case None
    with assms(1) i o show ?thesis
      by (simp add: disconnect_def close_socket_def)
  next
    case (Some t)
    with assms(1) i o show ?thesis
      by (simp add: disconnect_def close_socket_def)
  qed
qed

lemma close_after_disconnect_rearms:
  assumes url: "truthy (WS_URL cfg)" and ref: "wsRef st = Some i"
    and op: "readyState st i = Some OPEN"
  shows "next_timer st \<in> set (timers (run cfg [Disconnect, Closed i] st))
       \<and> length (sockets (run cfg [Disconnect, Closed i, Timeout (next_timer st)] st))
           = Suc (length (sockets st))"
proof -
  from op have i: "i < length (sockets st)"
    by (simp add: readyState_def split: if_splits)
  define st1 where "st1 = disconnect st"
  define st2 where "st2 = onclose cfg (st1\<lparr>sockets := (sockets st1)[i := CLOSED]\<rparr>)"
  from disconnect_open [OF ref op]
  have s1: "sockets st1 = (sockets st)[i := CLOSING]" and r1: "wsRef st1 = Some i"
    and n1: "next_timer st1 = next_timer st"
    by (simp_all add: st1_def)
  have step1: "step cfg Disconnect st = st1"
    by (simp add: step_def enabled_def st1_def)
  have en2: "enabled (Closed i) st1"
    using i by (simp add: enabled_def readyState_def s1)
  then have step2: "step cfg (Closed i) st1 = st2"
    by (simp add: step_def st2_def)
  have t2: "timers st2 = timers st1 @ [next_timer st]"
    and s2: "sockets st2 = (sockets st)[i := CLOSED]" and r2: "wsRef st2 = Some i"
    using url by (simp_all add: st2_def onclose_def Let_def s1 r1 n1)
  have en3: "enabled (Timeout (next_timer st)) st2"
    by (simp add: enabled_def t2)
  have "sockets (connect cfg (st2\<lparr>timers := removeAll (next_timer st) (timers st2)\<rparr>))
          = sockets st2 @ [CONNECTING]"
    using url i by (simp add: connect_def readyState_def r2 s2)
  with en3 have step3: "sockets (step cfg (Timeout (next_timer st)) st2) = sockets st2 @ [CONNECTING]"
    by (simp add: step_def)
  show ?thesis
    by (simp add: step1 step2 t2 step3 s2)
qed

text \<open>
  The part of \<open>disconnect\<close> that works: the timeout the ref points to is cancelled, so
  a \<open>disconnect()\<close> during the delay after a lost connection prevents the reconnect.
\<close>

lemma disconnect_cancels_pending:
  "reconnectTimeoutRef st = Some t \<Longrightarrow> t \<noteq> 0 \<Longrightarrow> t \<notin> set (timers (disconnect st))"
  by (auto simp: disconnect_def Let_def split: option.splits)

lemma disconnect_in_delay_window:
  "sockets (run cfg0 [Connect, Opened 0, Closed 0, Disconnect, Timeout 1] init_provider)
     = [CLOSED]"
  by (simp add: transport_defs cfg0_def init_provider_def)

section \<open>Properties of the workflow actions\<close>

lemmas gate_defs = available_def web_available_def mobile_available_def canUpdateStatus_def
  canEdit_def has_role_def assigned_to_def authorized_def authorized_roles_def

text \<open>
  C6. A user whose role the permission table does not list for an action (and nobody
  when no user is logged in) finds the action unavailable in both clients, and the
  attempt sends no request.
\<close>

theorem unauthorized_role_rejected:
  assumes "\<not> authorized u a"
  shows "\<not> available c inp u s a \<and> attempt c u a inp now s = None"
proof -
  have "\<not> available c inp u s a"
    using assms by (cases c; cases a; cases u) (auto simp: gate_defs)
  then show ?thesis
    by (cases c) (simp_all add: attempt_def available_def web_attempt_def mobile_attempt_def)
qed

theorem unauthorized_role_rejected_witness:
  "\<not> authorized (Some contractor_c1) AuthorityApprove
   \<and> \<not> available Web inputs0 (Some contractor_c1) snag_resolved AuthorityApprove
   \<and> attempt Web (Some contractor_c1) AuthorityApprove inputs0 t_first snag_resolved = None
   \<and> \<not> available Mobile inputs0 (Some contractor_c1) snag_resolved AuthorityApprove
   \<and> attempt Mobile (Some contractor_c1) AuthorityApprove inputs0 t_first snag_resolved = None"
proof -
  have h: "\<not> authorized (Some contractor_c1) AuthorityApprove"
    by (simp add: authorized_def authorized_roles_def contractor_c1_def)
  from h unauthorized_role_rejected [OF h, of Web inputs0 snag_resolved t_first]
    unauthorized_role_rejected [OF h, of Mobile inputs0 snag_resolved t_first]
  show ?thesis by blast
qed

text \<open>
  The approve gate of each client, for a logged-in user. The two differ: the web modal
  enables the button for every status but \<open>resolved\<close> and does not look at
  \<open>authority_approved\<close>.
\<close>

lemma mobile_approve_gate:
  "available Mobile inp (Some usr) s AuthorityApprove \<longleftrightarrow>
     role usr = ''authority'' \<and> (status s = ''resolved'' \<or> status s = ''in_progress'')
     \<and> authority_approved s \<noteq> Some True"
  by (auto simp: gate_defs truthy_bool_def)

lemma web_approve_gate:
  "available Web inp (Some usr) s AuthorityApprove \<longleftrightarrow>
     role usr = ''authority'' \<and> \<not> loading inp \<and> status s \<noteq> ''resolved''"
  by (auto simp: gate_defs)

lemmas attempt_defs = attempt_def web_attempt_def mobile_attempt_def apply_transition_def

text \<open>
  C1 on the code. An authority looks at a \<open>resolved\<close> snag that is not yet approved:
  the mobile screen offers the approve action, the web modal has its button disabled.
  The web modal also enables the button on an \<open>open\<close> snag and on a snag that is
  already approved, and the update its handler sends carries neither a status nor the
  authority's comment.
\<close>

theorem web_approve_diverges:
  "role authority_a1 = ''authority''
   \<and> status snag_resolved = ''resolved'' \<and> authority_approved snag_resolved \<noteq> Some True
   \<and> available Mobile inputs0 (Some authority_a1) snag_resolved AuthorityApprove
   \<and> \<not> available Web inputs0 (Some authority_a1) snag_resolved AuthorityApprove
   \<and> attempt Web (Some authority_a1) AuthorityApprove inputs0 t_second snag_resolved = None
   \<and> status snag_S1 = ''open''
   \<and> available Web inputs0 (Some authority_a1) snag_S1 AuthorityApprove
   \<and> authority_approved snag_approved = Some True
   \<and> available Web inputs0 (Some authority_a1) snag_approved AuthorityApprove
   \<and> attempt Web (Some authority_a1) AuthorityApprove inputs0 t_second snag_started =
       Some (Put ''/api/snags/S1''
              [(''authority_approved'', JBool True),
               (''authority_feedback'', JStr ''looks good'')])"
proof -
  have r: "role authority_a1 = ''authority''" by (simp add: authority_a1_def)
  have res: "status snag_resolved = ''resolved''" "authority_approved snag_resolved \<noteq> Some True"
    by (simp_all add: snag_resolved_def snag_S1_def)
  have opn: "status snag_S1 = ''open''" by (simp add: snag_S1_def)
  have apr: "authority_approved snag_approved = Some True"
    "status snag_approved = ''in_progress''"
    by (simp_all add: snag_approved_def snag_started_def)
  have st: "status snag_started = ''in_progress''" "snag_id snag_started = ''S1''"
    by (simp_all add: snag_started_def snag_S1_def)
  have l: "\<not> loading inputs0" "feedback inputs0 = ''looks good''" by (simp_all add: inputs0_def)
  have m: "available Mobile inputs0 (Some authority_a1) snag_resolved AuthorityApprove"
    using r res by (simp add: mobile_approve_gate)
  have w1: "\<not> available Web inputs0 (Some authority_a1) snag_resolved AuthorityApprove"
    using res by (simp add: web_approve_gate)
  then have w1': "attempt Web (Some authority_a1) AuthorityApprove inputs0 t_second
                    snag_resolved = None"
    by (simp add: attempt_defs available_def)
  have w2: "available Web inputs0 (Some authority_a1) snag_S1 AuthorityApprove"
    using r opn l by (simp add: web_approve_gate)
  have w3: "available Web inputs0 (Some authority_a1) snag_approved AuthorityApprove"
    using r apr l by (simp add: web_approve_gate)
  have "available Web inputs0 (Some authority_a1) snag_started AuthorityApprove"
    using r st l by (simp add: web_approve_gate)
  then have w4: "attempt Web (Some authority_a1) AuthorityApprove inputs0 t_second snag_started =
       Some (Put ''/api/snags/S1''
              [(''authority_approved'', JBool True),
               (''authority_feedback'', JStr ''looks good'')])"
    using st l
    by (simp add: attempt_defs available_def handleAuthorityApprove_def snag_endpoint_def)
  from r res m w1 w1' opn w2 apr(1) w3 w4 show ?thesis by blast
qed

text \<open>
  The mobile screen, for comparison, does what the claim says. For an authority, the
  approve action is available exactly when the status is \<open>resolved\<close> or
  \<open>in_progress\<close> and \<open>authority_approved\<close> is not true. Submitting it with feedback
  that is only white space sends nothing. Submitting it, when available, with other
  feedback sends one update that carries the feedback, the comment,
  \<open>authority_approved = true\<close> and \<open>status = verified\<close>, and the snag then has these
  values.
\<close>

lemma mobile_approve:
  assumes "role usr = ''authority''"
  shows "(available Mobile inp (Some usr) s AuthorityApprove \<longleftrightarrow>
            (status s = ''resolved'' \<or> status s = ''in_progress'')
            \<and> authority_approved s \<noteq> Some True)
       \<and> (blank (feedback inp) \<longrightarrow>
            attempt Mobile (Some usr) AuthorityApprove inp now s = None)
       \<and> (available Mobile inp (Some usr) s AuthorityApprove \<and> \<not> blank (feedback inp) \<longrightarrow>
            attempt Mobile (Some usr) AuthorityApprove inp now s =
              Some (Put (snag_endpoint s)
                     [(''authority_feedback'', JStr (feedback inp)),
                      (''authority_comment'', JStr (authorityComment inp)),
                      (''authority_approved'', JBool True),
                      (''status'', JStr ''verified'')])
            \<and> authority_approved (apply_transition Mobile (Some usr) AuthorityApprove inp now s)
                = Some True
            \<and> authority_feedback (apply_transition Mobile (Some usr) AuthorityApprove inp now s)
                = Some (feedback inp)
            \<and> authority_comment (apply_transition Mobile (Some usr) AuthorityApprove inp now s)
                = Some (authorityComment inp)
            \<and> status (apply_transition Mobile (Some usr) AuthorityApprove inp now s)
                = ''verified'')"
proof (intro conjI impI)
  show "available Mobile inp (Some usr) s AuthorityApprove \<longleftrightarrow>
          (status s = ''resolved'' \<or> status s = ''in_progress'')
          \<and> authority_approved s \<noteq> Some True"
    using assms by (simp add: mobile_approve_gate)
next
  assume "blank (feedback inp)"
  then show "attempt Mobile (Some usr) AuthorityApprove inp now s = None"
    by (simp add: attempt_defs submitFeedback_def)
next
  assume a: "available Mobile inp (Some usr) s AuthorityApprove \<and> \<not> blank (feedback inp)"
  then have av: "mobile_available (Some usr) s AuthorityApprove"
    by (simp add: available_def)
  with a show att: "attempt Mobile (Some usr) AuthorityApprove inp now s =
      Some (Put (snag_endpoint s)
             [(''authority_feedback'', JStr (feedback inp)),
              (''authority_comment'', JStr (authorityComment inp)),
              (''authority_approved'', JBool True),
              (''status'', JStr ''verified'')])"
    by (simp add: attempt_defs submitFeedback_def)
  show "authority_approved (apply_transition Mobile (Some usr) AuthorityApprove inp now s)
          = Some True"
    by (simp add: apply_transition_def att put_body_def put_bool_def)
  show "authority_feedback (apply_transition Mobile (Some usr) AuthorityApprove inp now s)
          = Some (feedback inp)"
    by (simp add: apply_transition_def att put_body_def put_string_def)
  show "authority_comment (apply_transition Mobile (Some usr) AuthorityApprove inp now s)
          = Some (authorityComment inp)"
    by (simp add: apply_transition_def att put_body_def put_string_def)
  show "status (apply_transition Mobile (Some usr) AuthorityApprove inp now s) = ''verified''"
    by (simp add: apply_transition_def att put_body_def)
qed

lemma blank_inputs_blank: "blank (feedback inputs_blank)"
  by code_simp

lemma not_blank_inputs0: "\<not> blank (feedback inputs0)"
  by code_simp

lemma blank_feedback_rejected:
  "attempt Mobile (Some authority_a1) AuthorityApprove inputs_blank t_second snag_resolved = None"
  by (simp add: attempt_defs submitFeedback_def blank_inputs_blank)

lemma not_in_edit_keys:
  "k \<notin> set ks \<Longrightarrow>
   map_of (concat (map (\<lambda>k. case f k of None \<Rightarrow> [] | Some v \<Rightarrow> [(k, v)]) ks)) k = None"
  by (induction ks) (auto split: option.splits)

lemma stamps_put_none:
  "map_of body ''work_started_date'' = None \<Longrightarrow> map_of body ''work_completed_date'' = None
   \<Longrightarrow> map_of body ''contractor_completion_date'' = None
   \<Longrightarrow> stamps (put_body body s) = stamps s"
  by (simp add: stamps_def put_body_def put_string_def)

lemma saveChanges_stamps:
  "saveChanges inp s = Some r \<Longrightarrow> stamps (put r s') = stamps s'"
proof -
  assume a: "saveChanges inp s = Some r"
  let ?body = "concat (map (\<lambda>k. case edits inp k of None \<Rightarrow> [] | Some v \<Rightarrow> [(k, v)]) mobile_edit_keys)"
  from a have r: "r = Put (snag_endpoint s) ?body"
    by (simp add: saveChanges_def Let_def split: if_splits)
  have "map_of ?body ''work_started_date'' = None"
    by (rule not_in_edit_keys) (simp add: mobile_edit_keys_def)
  moreover have "map_of ?body ''work_completed_date'' = None"
    by (rule not_in_edit_keys) (simp add: mobile_edit_keys_def)
  moreover have "map_of ?body ''contractor_completion_date'' = None"
    by (rule not_in_edit_keys) (simp add: mobile_edit_keys_def)
  ultimately show ?thesis using r by (simp add: stamps_put_none)
qed

lemma handleSaveEdit_stamps:
  "stamps (put (handleSaveEdit inp s) s') = stamps s'"
proof -
  let ?body = "concat (map (\<lambda>k. case edits inp k of None \<Rightarrow> [] | Some v \<Rightarrow> [(k, v)]) web_edit_keys)"
  have "map_of ?body ''work_started_date'' = None"
    by (rule not_in_edit_keys) (simp add: web_edit_keys_def)
  moreover have "map_of ?body ''work_completed_date'' = None"
    by (rule not_in_edit_keys) (simp add: web_edit_keys_def)
  moreover have "map_of ?body ''contractor_completion_date'' = None"
    by (rule not_in_edit_keys) (simp add: web_edit_keys_def)
  ultimately show ?thesis by (simp add: handleSaveEdit_def stamps_put_none)
qed

lemma edit_keeps_stamps:
  "stamps (apply_transition c u DirectEdit inp now s) = stamps s"
proof (cases c)
  case Web
  then show ?thesis
    by (simp add: attempt_defs handleSaveEdit_stamps)
next
  case Mobile
  then show ?thesis
    by (cases "saveChanges inp s") (simp_all add: attempt_defs saveChanges_stamps)
qed

lemma approve_keeps_stamps:
  "stamps (apply_transition c u AuthorityApprove inp now s) = stamps s"
  by (cases c)
    (simp_all add: attempt_defs handleAuthorityApprove_def submitFeedback_def stamps_put_none)

lemma started_after_start:
  assumes "attempt c u StartWork inp now s = Some r" and "now \<noteq> []"
  shows "truthy (work_started_date (put r s))"
proof (cases c)
  case Web
  with assms show ?thesis
    by (auto simp: attempt_defs handleContractorStartWork_def put_body_def put_string_def
          truthy_def split: if_splits)
next
  case Mobile
  with assms show ?thesis
    by (auto simp: attempt_defs updateStatus_def put_body_def put_string_def
          truthy_def split: if_splits option.splits)
qed

lemma start_keeps_stamps:
  assumes "truthy (work_started_date s)"
  shows "stamps (apply_transition c u StartWork inp now s) = stamps s"
proof (cases c)
  case Web
  with assms show ?thesis by (simp add: attempt_defs web_available_def)
next
  case Mobile
  with assms show ?thesis
    by (simp add: attempt_defs updateStatus_def stamps_put_none)
qed

lemma completed_after_complete:
  assumes "attempt c u MarkComplete inp now s = Some r" and "now \<noteq> []"
  shows "truthy (work_completed_date (put r s)) \<and> truthy_bool (contractor_completed (put r s))"
proof (cases c)
  case Web
  with assms show ?thesis
    by (auto simp: attempt_defs handleContractorComplete_def put_body_def put_string_def
          put_bool_def truthy_def truthy_bool_def split: if_splits)
next
  case Mobile
  with assms show ?thesis
    by (auto simp: attempt_defs submitContractorCompletion_def put_body_def put_string_def
          put_bool_def truthy_def truthy_bool_def split: if_splits option.splits)
qed

lemma complete_blocked:
  assumes "truthy (work_completed_date s)" and "truthy_bool (contractor_completed s)"
  shows "apply_transition c u MarkComplete inp now s = s"
  using assms by (cases c) (simp_all add: attempt_defs web_available_def mobile_available_def)

lemma resolved_after_resolve:
  assumes "attempt c u ManagerResolve inp now s = Some r"
  shows "status (put r s) = ''resolved''"
proof (cases c)
  case Web
  with assms show ?thesis by (simp add: attempt_defs split: if_splits)
next
  case Mobile
  with assms show ?thesis
    by (auto simp: attempt_defs updateStatus_def put_body_def split: if_splits)
qed

lemma resolve_blocked:
  assumes "status s = ''resolved''"
  shows "apply_transition c u ManagerResolve inp now s = s"
  using assms by (cases c) (simp_all add: attempt_defs web_available_def mobile_available_def)

text \<open>
  What the guards do achieve. Once an attempt at a transition has been accepted, its
  request stored and the snag fetched again, a second attempt at the same transition, by
  anyone and from either client, leaves the three timestamps as they are.
\<close>

lemma repeat_on_fresh_view:
  assumes "attempt c1 u1 a inp1 now1 s = Some r" and "now1 \<noteq> []"
  shows "stamps (apply_transition c2 u2 a inp2 now2 (put r s)) = stamps (put r s)"
proof (cases a)
  case StartWork
  with assms show ?thesis by (simp add: started_after_start start_keeps_stamps)
next
  case MarkComplete
  with assms completed_after_complete [of c1 u1 inp1 now1 s r] show ?thesis
    by (simp add: complete_blocked)
next
  case ManagerResolve
  with assms show ?thesis by (simp add: resolved_after_resolve resolve_blocked)
next
  case AuthorityApprove
  then show ?thesis by (simp add: approve_keeps_stamps)
next
  case DirectEdit
  then show ?thesis by (simp add: edit_keeps_stamps)
qed

text \<open>
  C2 on the code. The guards look at the snag as the screen last fetched it, and the
  mobile buttons stay active while an update is under way: \<open>Start Work\<close> pressed twice
  on the same view sends two updates, and the second carries a later
  \<open>work_started_date\<close>. And \<open>submitContractorCompletion\<close> has no guard at all, where
  \<open>updateStatus\<close> has one: on a snag that was resolved and then reopened by the
  manager, \<open>Mark Work Complete\<close> sends a new \<open>work_completed_date\<close> over the one the
  snag has.
\<close>

theorem timestamp_overwritten:
  "attempt Mobile (Some contractor_c1) StartWork inputs0 t_first snag_S1
     = Some (updateStatus ''in_progress'' t_first snag_S1)
   \<and> attempt Mobile (Some contractor_c1) StartWork inputs0 t_second snag_S1
     = Some (updateStatus ''in_progress'' t_second snag_S1)
   \<and> work_started_date (put (updateStatus ''in_progress'' t_first snag_S1) snag_S1)
     = Some t_first
   \<and> work_started_date
       (put (updateStatus ''in_progress'' t_second snag_S1)
         (put (updateStatus ''in_progress'' t_first snag_S1) snag_S1))
     = Some t_second
   \<and> t_second \<noteq> t_first
   \<and> status after_resolve = ''resolved''
   \<and> work_completed_date after_resolve = Some t_second
   \<and> status after_reopen = ''in_progress''
   \<and> work_completed_date after_reopen = Some t_second
   \<and> attempt Mobile (Some contractor_c1) MarkComplete inputs0 t_third after_reopen
     = Some (Put ''/api/snags/S1''
              [(''contractor_completed'', JBool True), (''work_completed_date'', JStr t_third)])
   \<and> work_completed_date after_complete = Some t_third
   \<and> t_third \<noteq> t_second"
  by code_simp

section \<open>Properties of the derived view\<close>

lemma digits_decimal: "list_all (\<lambda>d. digit d \<in> set ''0123456789'') [0..<10]"
  by code_simp

lemma digit_decimal:
  assumes "d < 10"
  shows "digit d \<in> set ''0123456789''"
proof -
  from assms have "d \<in> set [0..<10]" by simp
  with digits_decimal show ?thesis
    unfolding list_all_iff by blast
qed

lemma String_decimal: "decimal_text (String n)"
proof (induction n rule: String.induct)
  case (1 n)
  show ?case
  proof (cases "n < 10")
    case True
    then show ?thesis
      by (subst String.simps) (simp add: decimal_text_def digit_decimal del: set_simps)
  next
    case False
    with 1 show ?thesis
      by (subst String.simps) (simp add: decimal_text_def digit_decimal del: set_simps)
  qed
qed

text \<open>
  C9. Let \<open>toLowerCase\<close> leave text made of decimal digits as it is, let the page size
  not be 0 and the query numbers be integers below \<open>2 ^ 53\<close>. When the search text is
  a case-insensitive substring of no snag's description, location, project name or
  query number, the filtered list is empty, every page of it is empty, and the page
  count is 0.
\<close>

theorem absent_search_empty_view:
  assumes "0 < itemsPerPage"
    and "\<forall>t. decimal_text t \<longrightarrow> toLowerCase t = t"
    and "\<forall>s\<in>set sn. query_no s < 2 ^ 53"
    and "\<forall>s\<in>set sn. search_absent toLowerCase (f_search f) s"
  shows "filteredSnags toLowerCase sn f = []
       \<and> paginatedSnags (filteredSnags toLowerCase sn f) currentPage itemsPerPage = []
       \<and> totalPages (filteredSnags toLowerCase sn f) itemsPerPage = Finite 0"
proof -
  have "\<not> (if f_search f = [] then True
           else matches toLowerCase (toLowerCase (f_search f)) s)"
    if "s \<in> set sn" for s
  proof -
    from assms(4) that have ab: "search_absent toLowerCase (f_search f) s" by blast
    from assms(2) have num: "toLowerCase (String (query_no s)) = String (query_no s)"
      by (simp add: String_decimal)
    from ab num have q: "\<not> sublist (toLowerCase (f_search f)) (String (query_no s))"
      by (simp add: search_absent_def ci_substring_def)
    from assms(2) have "toLowerCase [] = []"
      by (simp add: decimal_text_def)
    with q have ne: "f_search f \<noteq> []"
      by auto
    from ab q have "\<not> matches toLowerCase (toLowerCase (f_search f)) s"
      by (auto simp: matches_def search_absent_def ci_substring_def includes_str_def
            split: option.splits)
    with ne show ?thesis by simp
  qed
  then have "filteredSnags toLowerCase sn f = []"
    by (simp add: filteredSnags_def filter_empty_conv)
  with assms(1) show ?thesis
    by (simp add: paginatedSnags_def totalPages_def)
qed

lemma ascii_lower_decimal: "decimal_text t \<Longrightarrow> ascii_lower t = t"
proof (induction t)
  case Nil
  then show ?case by (simp add: ascii_lower_def)
next
  case (Cons c t)
  then have "c \<in> set ''0123456789''" and "decimal_text t"
    by (simp_all add: decimal_text_def del: set_simps)
  then have "ascii_lower_char c = c" and "ascii_lower t = t"
    using Cons.IH by (auto simp: ascii_lower_char_def Let_def)
  then show ?case by (simp add: ascii_lower_def)
qed

lemma zebra_absent:
  "search_absent ascii_lower ''Zebra'' snag_S1 \<and> search_absent ascii_lower ''Zebra'' snag_S2"
  by code_simp

theorem absent_search_empty_view_witness:
  "search_absent ascii_lower ''Zebra'' snag_S1 \<and> search_absent ascii_lower ''Zebra'' snag_S2
   \<and> query_no snag_S1 < 2 ^ 53 \<and> query_no snag_S2 < 2 ^ 53
   \<and> filteredSnags ascii_lower [snag_S1, snag_S2] (no_filters\<lparr>f_search := ''Zebra''\<rparr>) = []
   \<and> paginatedSnags
        (filteredSnags ascii_lower [snag_S1, snag_S2] (no_filters\<lparr>f_search := ''Zebra''\<rparr>))
        1 10 = []
   \<and> totalPages
        (filteredSnags ascii_lower [snag_S1, snag_S2] (no_filters\<lparr>f_search := ''Zebra''\<rparr>))
        10 = Finite 0"
proof -
  have p: "0 < (10::nat)" by simp
  have d: "\<forall>t. decimal_text t \<longrightarrow> ascii_lower t = t"
    by (simp add: ascii_lower_decimal)
  have b1: "query_no snag_S1 < 2 ^ 53" and b2: "query_no snag_S2 < 2 ^ 53"
    by (simp_all add: snag_S1_def snag_S2_def)
  then have b: "\<forall>s\<in>set [snag_S1, snag_S2]. query_no s < 2 ^ 53" by simp
  have a: "\<forall>s\<in>set [snag_S1, snag_S2].
             search_absent ascii_lower (f_search (no_filters\<lparr>f_search := ''Zebra''\<rparr>)) s"
    using zebra_absent by simp
  from absent_search_empty_view [OF p d b a, of 1] zebra_absent b1 b2 show ?thesis by blast
qed

text \<open>
  A search text that differs from a description only in the case of an accented letter
  is not absent, whatever else \<open>toLowerCase\<close> does, as soon as it maps the capital
  letter to the small one.
\<close>

lemma accented_search_not_absent:
  assumes "toLowerCase ecole_capital = ecole_small" and "toLowerCase ecole_small = ecole_small"
    and "description s = Some ecole_capital"
  shows "\<not> search_absent toLowerCase ecole_small s"
  using assms by (simp add: search_absent_def ci_substring_def)

end
